theory Spec2Isabelle
  imports Complex_Main
begin

section \<open>Strings: the three \<open>str\<close> methods used by \<open>api.py\<close>\<close>

text \<open>
  A Python \<open>str\<close> is a sequence of code points; here it is a \<open>string\<close>, so the model
  covers the code points below 256. \<open>isspace\<close> lists the code points of that range
  for which Python's \<open>str.isspace\<close> holds; \<open>str.strip()\<close> without argument removes
  exactly those from both ends.
\<close>

definition isspace :: "char \<Rightarrow> bool" where
  "isspace c = ((of_char c :: nat) \<in> {9, 10, 11, 12, 13, 28, 29, 30, 31, 32, 133, 160})"

definition str_strip :: "string \<Rightarrow> string" where
  "str_strip s = rev (dropWhile isspace (rev (dropWhile isspace s)))"

text \<open>
  \<open>s.split(sep)\<close> with a one-character separator: the pieces between the separators,
  an empty piece where two separators meet or the string begins or ends with one,
  and \<open>[""]\<close> for the empty string.
\<close>

fun str_split :: "char \<Rightarrow> string \<Rightarrow> string list" where
  "str_split sep [] = [[]]"
| "str_split sep (c # cs) =
     (if c = sep then [] # str_split sep cs
      else (c # hd (str_split sep cs)) # tl (str_split sep cs))"

fun str_join :: "string \<Rightarrow> string list \<Rightarrow> string" where
  "str_join sep [] = []"
| "str_join sep [p] = p"
| "str_join sep (p # q # ps) = p @ sep @ str_join sep (q # ps)"

section \<open>The completion service\<close>

text \<open>
  \<open>openai.Completion.create\<close> is outside the repository. A call either raises an
  exception, of which the code only ever reads \<open>str(e)\<close>, or returns a response, of
  which the code only reads the texts of its \<open>choices\<close>. What the service answers may
  depend on everything it was asked before, so a service is a function of the requests
  made so far and of the present one, and every call is recorded.
\<close>

datatype exn = Exception (str: string)

datatype 'a outcome = Returns 'a | Raised exn

record request =
  engine :: string
  prompt :: string
  max_tokens :: int
  temperature :: real

datatype completion = Raises exn | Response (choices: "string list")

type_synonym service = "request list \<Rightarrow> request \<Rightarrow> completion"

definition Completion_create ::
  "service \<Rightarrow> request \<Rightarrow> request list \<Rightarrow> completion \<times> request list" where
  "Completion_create svc req sent = (svc sent req, sent @ [req])"

text \<open>\<open>response.choices[0].text.strip()\<close>: indexing an empty list raises \<open>IndexError\<close>.\<close>

definition first_choice_text :: "completion \<Rightarrow> string outcome" where
  "first_choice_text r =
     (case r of
        Raises e \<Rightarrow> Raised e
      | Response cs \<Rightarrow>
          (case cs of
             [] \<Rightarrow> Raised (Exception ''list index out of range'')
           | c # _ \<Rightarrow> Returns (str_strip c)))"

section \<open>\<open>api.py\<close>\<close>

definition tag_string :: "string \<Rightarrow> string" where
  "tag_string tags = str_join '', '' (map str_strip (str_split (CHR '','') tags))"

definition outline_prompt :: "string \<Rightarrow> string \<Rightarrow> string \<Rightarrow> string" where
  "outline_prompt title notes tags =
     ''Title: '' @ title @ ''\<newline>Tags: '' @ tag_string tags @ ''\<newline>Notes: '' @ notes
       @ ''\<newline>\<newline>Create a detailed outline for an article based on the above information:''"

definition outline_request :: "string \<Rightarrow> string \<Rightarrow> string \<Rightarrow> real \<Rightarrow> request" where
  "outline_request title notes tags t =
     \<lparr>engine = ''text-davinci-003'', prompt = outline_prompt title notes tags,
      max_tokens = 200, temperature = t\<rparr>"

text \<open>The body of the \<open>try\<close> block, then the function with its \<open>except Exception\<close>.\<close>

definition outline_try ::
  "service \<Rightarrow> string \<Rightarrow> string \<Rightarrow> string \<Rightarrow> real \<Rightarrow> request list
     \<Rightarrow> string outcome \<times> request list" where
  "outline_try svc title notes tags t sent =
     (let (response, sent') = Completion_create svc (outline_request title notes tags t) sent
      in (first_choice_text response, sent'))"

definition generate_article_outline ::
  "service \<Rightarrow> string \<Rightarrow> string \<Rightarrow> string \<Rightarrow> real \<Rightarrow> request list
     \<Rightarrow> string outcome \<times> request list" where
  "generate_article_outline svc title notes tags t sent =
     (case outline_try svc title notes tags t sent of
        (Returns text, sent') \<Rightarrow> (Returns text, sent')
      | (Raised e, sent') \<Rightarrow> (Returns (str e), sent'))"

definition article_prompt :: "string \<Rightarrow> string" where
  "article_prompt outline =
     ''Write a detailed article based on the following outline:\<newline>'' @ outline @ ''\<newline>''"

definition article_request :: "string \<Rightarrow> real \<Rightarrow> request" where
  "article_request outline t =
     \<lparr>engine = ''text-davinci-003'', prompt = article_prompt outline,
      max_tokens = 800, temperature = t\<rparr>"

definition article_try ::
  "service \<Rightarrow> string \<Rightarrow> real \<Rightarrow> request list \<Rightarrow> string outcome \<times> request list" where
  "article_try svc outline t sent =
     (let (response, sent') = Completion_create svc (article_request outline t) sent
      in (first_choice_text response, sent'))"

definition generate_full_article_from_outline ::
  "service \<Rightarrow> string \<Rightarrow> real \<Rightarrow> request list \<Rightarrow> string outcome \<times> request list" where
  "generate_full_article_from_outline svc outline t sent =
     (case article_try svc outline t sent of
        (Returns text, sent') \<Rightarrow> (Returns text, sent')
      | (Raised e, sent') \<Rightarrow> (Returns (str e), sent'))"

section \<open>\<open>app.py\<close>: the worker thread\<close>

text \<open>
  \<open>call_openai_api\<close> runs on a worker thread. It calls both operations with their
  default temperature, the float literal \<open>0.7\<close> (passed on unchanged, written here as the
  decimal it denotes), and emits the signal \<open>articleGenerated\<close> with the article. The
  result is the emitted text, or \<open>None\<close> when an exception reached the \<open>except\<close> clause,
  where it is printed and nothing is emitted.
\<close>

definition call_openai_api ::
  "service \<Rightarrow> string \<Rightarrow> string \<Rightarrow> string \<Rightarrow> request list \<Rightarrow> string option \<times> request list" where
  "call_openai_api svc title tags notes sent =
     (case generate_article_outline svc title notes tags 0.7 sent of
        (Raised e, sent1) \<Rightarrow> (None, sent1)
      | (Returns outline, sent1) \<Rightarrow>
          (case generate_full_article_from_outline svc outline 0.7 sent1 of
             (Raised e, sent2) \<Rightarrow> (None, sent2)
           | (Returns generated_article, sent2) \<Rightarrow> (Some generated_article, sent2)))"

section \<open>\<open>app.py\<close>: the toolkit objects the window uses\<close>

text \<open>
  A \<open>QTimer\<close> is active or not and has an interval; \<open>start(msec)\<close> sets the interval
  and (re)starts it, \<open>stop()\<close> makes it inactive. Only an active timer emits \<open>timeout\<close>.
\<close>

record timer =
  active :: bool
  interval :: int

definition QTimer :: timer where
  "QTimer = \<lparr>active = False, interval = 0\<rparr>"

definition start :: "int \<Rightarrow> timer \<Rightarrow> timer" where
  "start msec t = \<lparr>active = True, interval = msec\<rparr>"

definition stop :: "timer \<Rightarrow> timer" where
  "stop t = t\<lparr>active := False\<rparr>"

text \<open>
  The output area is a read-only \<open>QTextBrowser\<close>: its plain text and the position of its
  text cursor. \<open>clear()\<close> empties the document, \<open>setText\<close> replaces it and leaves the
  cursor at its start, \<open>insertPlainText\<close> inserts at the cursor and leaves the cursor
  after the inserted text.
\<close>

record text_area =
  content :: string
  cursor :: nat

definition QTextBrowser :: text_area where
  "QTextBrowser = \<lparr>content = [], cursor = 0\<rparr>"

definition clear :: "text_area \<Rightarrow> text_area" where
  "clear a = \<lparr>content = [], cursor = 0\<rparr>"

definition setText :: "string \<Rightarrow> text_area \<Rightarrow> text_area" where
  "setText txt a = \<lparr>content = txt, cursor = 0\<rparr>"

definition insertPlainText :: "string \<Rightarrow> text_area \<Rightarrow> text_area" where
  "insertPlainText txt a =
     \<lparr>content = take (cursor a) (content a) @ txt @ drop (cursor a) (content a),
      cursor = cursor a + length txt\<rparr>"

text \<open>\<open>s[i]\<close> on a \<open>str\<close>: a negative index counts from the end, out of range raises.\<close>

definition getitem :: "string \<Rightarrow> int \<Rightarrow> char outcome" where
  "getitem s i =
     (let n = int (length s); j = (if i < 0 then n + i else i)
      in if 0 \<le> j \<and> j < n then Returns (s ! nat j)
         else Raised (Exception ''string index out of range''))"

section \<open>\<open>app.py\<close>: \<open>ArticleGenerator\<close>\<close>

text \<open>
  The fields of the window that its methods read or write. \<open>full_generated_text\<close> and
  \<open>current_typing_position\<close> are not assigned by \<open>__init__\<close>: reading them before
  \<open>update_gui_with_generated_article\<close> has run raises \<open>AttributeError\<close>, so they are
  optional here. \<open>threads\<close> holds the arguments of the worker threads that were started
  and have not emitted yet.
\<close>

record app =
  title_entry :: string
  tags_entry :: string
  notes_entry :: string
  generated_text_area :: text_area
  generated_text :: string
  ellipsis_timer :: timer
  ellipsis_count :: int
  typing_timer :: timer
  full_generated_text :: "string option"
  current_typing_position :: "int option"
  threads :: "(string \<times> string \<times> string) list"

definition ArticleGenerator :: app where
  "ArticleGenerator =
     \<lparr>title_entry = [], tags_entry = [], notes_entry = [],
      generated_text_area = QTextBrowser, generated_text = [],
      ellipsis_timer = QTimer, ellipsis_count = 0, typing_timer = QTimer,
      full_generated_text = None, current_typing_position = None, threads = []\<rparr>"

text \<open>Reading an attribute of the window that was never assigned.\<close>

definition AttributeError :: "string \<Rightarrow> exn" where
  "AttributeError name =
     Exception ([CHR 0x27] @ ''ArticleGenerator'' @ [CHR 0x27] @ '' object has no attribute ''
       @ [CHR 0x27] @ name @ [CHR 0x27])"

definition generate_article :: "app \<Rightarrow> app" where
  "generate_article s =
     (let title = title_entry s; tags = tags_entry s; notes = notes_entry s
      in s\<lparr>ellipsis_timer := start 500 (ellipsis_timer s),
           threads := threads s @ [(title, tags, notes)]\<rparr>)"

definition update_gui_with_generated_article :: "string \<Rightarrow> app \<Rightarrow> app" where
  "update_gui_with_generated_article text s =
     s\<lparr>ellipsis_timer := stop (ellipsis_timer s),
       generated_text_area := clear (generated_text_area s),
       full_generated_text := Some text,
       current_typing_position := Some 0,
       typing_timer := start 30 (typing_timer s)\<rparr>"

definition type_next_character :: "app \<Rightarrow> app outcome" where
  "type_next_character s =
     (case current_typing_position s of
        None \<Rightarrow> Raised (AttributeError ''current_typing_position'')
      | Some p \<Rightarrow>
          (case full_generated_text s of
             None \<Rightarrow> Raised (AttributeError ''full_generated_text'')
           | Some text \<Rightarrow>
               if p < int (length text) then
                 (case getitem text p of
                    Raised e \<Rightarrow> Raised e
                  | Returns current_text \<Rightarrow>
                      Returns (s\<lparr>generated_text_area :=
                                   insertPlainText [current_text] (generated_text_area s),
                                 current_typing_position := Some (p + 1)\<rparr>))
               else Returns (s\<lparr>typing_timer := stop (typing_timer s)\<rparr>)))"

definition update_ellipsis :: "app \<Rightarrow> app" where
  "update_ellipsis s =
     (let n = (ellipsis_count s + 1) mod 4
      in s\<lparr>ellipsis_count := n,
           generated_text_area :=
             setText (''Generating article'' @ replicate (nat n) (CHR ''.''))
               (generated_text_area s)\<rparr>)"

section \<open>The triggers of the window\<close>

text \<open>
  What can happen to the window: the user edits the three input fields, the user clicks
  the button (\<open>generate_article\<close>), worker thread \<open>i\<close> emits \<open>articleGenerated\<close> with
  some text (\<open>update_gui_with_generated_article\<close> runs on the UI thread and the worker
  ends), or one of the two timers times out. A timer times out only while it is active,
  and only a started worker emits.
\<close>

datatype event =
    Edit string string string
  | Click
  | Emit nat string
  | EllipsisTimeout
  | TypingTimeout

fun enabled :: "event \<Rightarrow> app \<Rightarrow> bool" where
  "enabled (Edit title tags notes) s = True"
| "enabled Click s = True"
| "enabled (Emit i text) s = (i < length (threads s))"
| "enabled EllipsisTimeout s = active (ellipsis_timer s)"
| "enabled TypingTimeout s = active (typing_timer s)"

fun fire :: "event \<Rightarrow> app \<Rightarrow> app outcome" where
  "fire (Edit title tags notes) s =
     Returns (s\<lparr>title_entry := title, tags_entry := tags, notes_entry := notes\<rparr>)"
| "fire Click s = Returns (generate_article s)"
| "fire (Emit i text) s =
     Returns (update_gui_with_generated_article text
       (s\<lparr>threads := take i (threads s) @ drop (Suc i) (threads s)\<rparr>))"
| "fire EllipsisTimeout s = Returns (update_ellipsis s)"
| "fire TypingTimeout s = type_next_character s"

text \<open>The states a sequence of triggers goes through, up to the first that cannot happen.\<close>

fun trace :: "event list \<Rightarrow> app \<Rightarrow> app list" where
  "trace [] s = [s]"
| "trace (e # es) s =
     (if enabled e s then
        (case fire e s of Returns s' \<Rightarrow> s # trace es s' | Raised x \<Rightarrow> [s])
      else [s])"

text \<open>\<open>n\<close> intervals of the typing timer pass with no other trigger in between.\<close>

fun type_ticks :: "nat \<Rightarrow> app \<Rightarrow> app outcome" where
  "type_ticks 0 s = Returns s"
| "type_ticks (Suc n) s =
     (if active (typing_timer s) then
        (case type_next_character s of
           Returns s' \<Rightarrow> type_ticks n s'
         | Raised e \<Rightarrow> Raised e)
      else type_ticks n s)"

text \<open>
  The phase of the animation, read off the two timers: loading while only the ellipsis
  timer runs, typing while only the typing timer runs, idle while neither does. With
  both timers running the window is in none of the three phases.
\<close>

datatype phase = Idle | Loading | Typing

definition phase_of :: "app \<Rightarrow> phase option" where
  "phase_of s =
     (if active (ellipsis_timer s) \<and> active (typing_timer s) then None
      else if active (ellipsis_timer s) then Some Loading
      else if active (typing_timer s) then Some Typing
      else Some Idle)"

text \<open>
  Serialised use: the user clicks only while the window is idle and no worker is
  outstanding. The code does not enforce it.
\<close>

fun serial :: "event \<Rightarrow> app \<Rightarrow> bool" where
  "serial Click s = (phase_of s = Some Idle \<and> threads s = [])"
| "serial e s = True"

inductive serial_reachable :: "app \<Rightarrow> bool" where
  initial: "serial_reachable ArticleGenerator"
| step: "serial_reachable s \<Longrightarrow> enabled e s \<Longrightarrow> serial e s \<Longrightarrow> fire e s = Returns s'
          \<Longrightarrow> serial_reachable s'"

section \<open>Two services to run the code on\<close>

text \<open>
  The first answers an outline request with padded text and fails every other request;
  the second fails the outline request and answers the article request.
\<close>

definition answering_service :: service where
  "answering_service sent req =
     (if max_tokens req = 200 then Response [''  I. Sources of plastic  '', ''II. Other'']
      else Raises (Exception ''Rate limit reached''))"

definition failing_service :: service where
  "failing_service sent req =
     (if max_tokens req = 200 then Raises (Exception ''Incorrect API key provided'')
      else Response [''An article.'']) "

section \<open>Facts about the string methods and the two calls\<close>

lemma str_split_not_Nil: "str_split sep s \<noteq> []"
  by (induction s) auto

lemma str_split_Cons_case:
  "str_split sep (c # cs) =
     (if c = sep then [] # str_split sep cs
      else (case str_split sep cs of p # ps \<Rightarrow> (c # p) # ps | [] \<Rightarrow> [[c]]))"
  using str_split_not_Nil [of sep cs] by (cases "str_split sep cs") auto

lemma str_join_Cons: "ps \<noteq> [] \<Longrightarrow> str_join sep (p # ps) = p @ sep @ str_join sep ps"
  by (cases ps) auto

lemma str_join_split: "str_join [sep] (str_split sep s) = s"
proof (induction s)
  case Nil show ?case by simp
next
  case (Cons c cs)
  obtain p ps where sp: "str_split sep cs = p # ps"
    using str_split_not_Nil [of sep cs] by (cases "str_split sep cs") auto
  with Cons show ?case
    by (cases ps) (auto simp: str_join_Cons str_split_not_Nil)
qed

lemma str_split_no_sep: "p \<in> set (str_split sep s) \<Longrightarrow> sep \<notin> set p"
proof (induction s arbitrary: p)
  case Nil then show ?case by simp
next
  case (Cons c cs)
  obtain q qs where sp: "str_split sep cs = q # qs"
    using str_split_not_Nil [of sep cs] by (cases "str_split sep cs") auto
  with Cons show ?case by (auto split: if_splits)
qed

lemma str_strip_decomp:
  "\<exists>l r. s = l @ str_strip s @ r \<and> (\<forall>c\<in>set l. isspace c) \<and> (\<forall>c\<in>set r. isspace c)"
proof -
  let ?l = "takeWhile isspace s" and ?m = "dropWhile isspace s"
  let ?r = "rev (takeWhile isspace (rev ?m))"
  have "?m = str_strip s @ ?r"
    unfolding str_strip_def
    by (metis rev_append rev_rev_ident takeWhile_dropWhile_id)
  then have "s = ?l @ str_strip s @ ?r" by (metis takeWhile_dropWhile_id)
  moreover have "\<forall>c\<in>set ?l. isspace c" by (auto dest: set_takeWhileD)
  moreover have "\<forall>c\<in>set ?r. isspace c" by (auto dest: set_takeWhileD)
  ultimately show ?thesis by blast
qed

lemma str_strip_ends:
  "str_strip s = [] \<or> (\<not> isspace (hd (str_strip s)) \<and> \<not> isspace (last (str_strip s)))"
proof (cases "str_strip s = []")
  case True then show ?thesis by simp
next
  case False
  let ?m = "dropWhile isspace s"
  let ?k = "dropWhile isspace (rev ?m)"
  have k: "?k \<noteq> []" using False unfolding str_strip_def by (metis rev_is_Nil_conv)
  then have h: "\<not> isspace (hd ?k)" by (rule hd_dropWhile)
  have "last (str_strip s) = hd ?k" using k by (simp add: str_strip_def last_rev)
  with h have l: "\<not> isspace (last (str_strip s))" by simp
  have m: "?m \<noteq> []"
  proof
    assume a: "?m = []"
    have "?k = []" unfolding a by simp
    with k show False by simp
  qed
  then have hm: "\<not> isspace (hd ?m)" by (rule hd_dropWhile)
  have "\<exists>r. ?m = str_strip s @ r"
    unfolding str_strip_def by (metis rev_append rev_rev_ident takeWhile_dropWhile_id)
  then obtain r where "?m = str_strip s @ r" by blast
  with False have "hd ?m = hd (str_strip s)" by (metis hd_append2)
  with hm l show ?thesis by simp
qed

lemma outline_run:
  "generate_article_outline svc title notes tags t sent =
     (Returns (case first_choice_text (svc sent (outline_request title notes tags t)) of
                 Returns text \<Rightarrow> text | Raised e \<Rightarrow> str e),
      sent @ [outline_request title notes tags t])"
  by (simp add: generate_article_outline_def outline_try_def Completion_create_def
      split: outcome.split)

lemma article_run:
  "generate_full_article_from_outline svc outline t sent =
     (Returns (case first_choice_text (svc sent (article_request outline t)) of
                 Returns text \<Rightarrow> text | Raised e \<Rightarrow> str e),
      sent @ [article_request outline t])"
  by (simp add: generate_full_article_from_outline_def article_try_def Completion_create_def
      split: outcome.split)

lemma worker_run:
  "call_openai_api svc title tags notes sent =
     (let outline = (case first_choice_text (svc sent (outline_request title notes tags 0.7)) of
                       Returns text \<Rightarrow> text | Raised e \<Rightarrow> str e);
          sent1 = sent @ [outline_request title notes tags 0.7]
      in (Some (case first_choice_text (svc sent1 (article_request outline 0.7)) of
                  Returns text \<Rightarrow> text | Raised e \<Rightarrow> str e),
          sent1 @ [article_request outline 0.7]))"
  by (simp add: call_openai_api_def outline_run article_run Let_def)

section \<open>The generation client\<close>

text \<open>
  Claim C1. Both operations of the generation client are total: whatever the service
  does, each returns a string and never raises. When the service answers, the result is
  the text of the first choice with leading and trailing whitespace removed; when the
  service raises, or answers with no choice at all, the result is the string form of the
  exception, an ordinary string like any other result.
\<close>

theorem generation_client_total:
  "(\<exists>text. fst (generate_article_outline svc title notes tags t sent) = Returns text) \<and>
   (\<forall>c cs. svc sent (outline_request title notes tags t) = Response (c # cs) \<longrightarrow>
      fst (generate_article_outline svc title notes tags t sent) = Returns (str_strip c)) \<and>
   (\<forall>e. svc sent (outline_request title notes tags t) = Raises e \<longrightarrow>
      fst (generate_article_outline svc title notes tags t sent) = Returns (str e)) \<and>
   (svc sent (outline_request title notes tags t) = Response [] \<longrightarrow>
      fst (generate_article_outline svc title notes tags t sent)
        = Returns ''list index out of range'') \<and>
   (\<exists>text. fst (generate_full_article_from_outline svc outline t sent) = Returns text) \<and>
   (\<forall>c cs. svc sent (article_request outline t) = Response (c # cs) \<longrightarrow>
      fst (generate_full_article_from_outline svc outline t sent) = Returns (str_strip c)) \<and>
   (\<forall>e. svc sent (article_request outline t) = Raises e \<longrightarrow>
      fst (generate_full_article_from_outline svc outline t sent) = Returns (str e)) \<and>
   (svc sent (article_request outline t) = Response [] \<longrightarrow>
      fst (generate_full_article_from_outline svc outline t sent)
        = Returns ''list index out of range'')"
  by (simp add: outline_run article_run first_choice_text_def)

theorem generation_client_total_witness:
  "fst (generate_article_outline answering_service ''Ocean'' ''plastic'' ''a,b'' 0.7 [])
     = Returns ''I. Sources of plastic'' \<and>
   fst (generate_full_article_from_outline answering_service ''I. Sources'' 0.7 [])
     = Returns ''Rate limit reached''"
  using generation_client_total [of answering_service "''Ocean''" "''plastic''" "''a,b''" "0.7" "[]"
      "''I. Sources''"]
  by (simp add: answering_service_def outline_request_def article_request_def
      str_strip_def isspace_def)

text \<open>
  Claim C2. For every tags string the tag segment of the outline prompt is the tags cut
  at the commas (joining the pieces with commas gives the string back, and no piece
  holds a comma), each piece trimmed of surrounding whitespace (what is removed at both
  ends is whitespace only, and the trimmed piece neither begins nor ends with
  whitespace), joined with a comma and a space. The tags \<open>a, b ,c\<close> give \<open>a, b, c\<close>.
\<close>

theorem tag_segment_split_trim_join:
  "tag_string tags = str_join '', '' (map str_strip (str_split (CHR '','') tags)) \<and>
   str_join '','' (str_split (CHR '','') tags) = tags \<and>
   (\<forall>p \<in> set (str_split (CHR '','') tags). CHR '','' \<notin> set p) \<and>
   (\<forall>p \<in> set (str_split (CHR '','') tags).
      (\<exists>l r. p = l @ str_strip p @ r \<and> (\<forall>c\<in>set l. isspace c) \<and> (\<forall>c\<in>set r. isspace c)) \<and>
      (str_strip p = [] \<or> \<not> isspace (hd (str_strip p)) \<and> \<not> isspace (last (str_strip p)))) \<and>
   prompt (outline_request title notes tags t) =
     ''Title: '' @ title @ ''\<newline>Tags: '' @ tag_string tags @ ''\<newline>Notes: '' @ notes
       @ ''\<newline>\<newline>Create a detailed outline for an article based on the above information:'' \<and>
   str_split (CHR '','') ''a, b ,c'' = [''a'', '' b '', ''c''] \<and>
   tag_string ''a, b ,c'' = ''a, b, c''"
proof -
  have "tag_string ''a, b ,c'' = ''a, b, c''"
    by (simp add: tag_string_def str_strip_def isspace_def)
  moreover have "str_split (CHR '','') ''a, b ,c'' = [''a'', '' b '', ''c'']" by simp
  ultimately show ?thesis
    using str_strip_decomp str_strip_ends str_join_split [of "CHR '',''" tags]
    by (simp add: tag_string_def outline_request_def outline_prompt_def str_split_no_sep)
qed

theorem tag_segment_split_trim_join_witness:
  "'' b '' \<in> set (str_split (CHR '','') ''a, b ,c'') \<and> CHR '','' \<notin> set '' b '' \<and>
   str_strip '' b '' = ''b'' \<and>
   prompt (outline_request ''T'' ''N'' ''a, b ,c'' 0.7) =
     ''Title: T\<newline>Tags: a, b, c\<newline>Notes: N\<newline>\<newline>Create a detailed outline for an article based on the above information:''"
  using tag_segment_split_trim_join [of "''a, b ,c''" "''T''" "''N''" "0.7"]
  by (simp add: str_strip_def isspace_def)

text \<open>
  Claim C3. \<open>generate_article_outline\<close> sends the service exactly one request, with
  \<open>max_tokens = 200\<close>, and \<open>generate_full_article_from_outline\<close> exactly one with
  \<open>max_tokens = 800\<close>; the prompts hold the title, the tag segment, the notes and the
  outline as they are, between the fixed pieces of text.
\<close>

theorem request_limits_and_verbatim_prompts:
  "snd (generate_article_outline svc title notes tags t sent) =
     sent @ [\<lparr>engine = ''text-davinci-003'',
              prompt = ''Title: '' @ title @ ''\<newline>Tags: '' @ tag_string tags
                @ ''\<newline>Notes: '' @ notes
                @ ''\<newline>\<newline>Create a detailed outline for an article based on the above information:'',
              max_tokens = 200, temperature = t\<rparr>] \<and>
   snd (generate_full_article_from_outline svc outline t sent) =
     sent @ [\<lparr>engine = ''text-davinci-003'',
              prompt = ''Write a detailed article based on the following outline:\<newline>''
                @ outline @ ''\<newline>'',
              max_tokens = 800, temperature = t\<rparr>]"
  by (simp add: outline_run article_run outline_request_def article_request_def
      outline_prompt_def article_prompt_def)

text \<open>
  Claim C4. For the title \<open>Ocean Conservation\<close>, the tags \<open>nature, water, policy\<close> and
  the notes \<open>focus on plastic pollution\<close>, the prompt of the outline request, the first
  request the worker sends, contains \<open>Tags: nature, water, policy\<close>. For every
  submission the worker sends two requests, and the prompt of the second is the phrase
  \<open>Write a detailed article based on the following outline:\<close>, a line break, the text
  that \<open>generate_article_outline\<close> returned, unchanged, and a line break.
\<close>

theorem outline_fed_into_article_prompt:
  "prompt (outline_request ''Ocean Conservation'' ''focus on plastic pollution''
       ''nature, water, policy'' t) =
     ''Title: Ocean Conservation\<newline>'' @ ''Tags: nature, water, policy''
       @ ''\<newline>Notes: focus on plastic pollution\<newline>\<newline>Create a detailed outline for an article based on the above information:'' \<and>
   hd (snd (call_openai_api svc ''Ocean Conservation'' ''nature, water, policy''
              ''focus on plastic pollution'' [])) =
     outline_request ''Ocean Conservation'' ''focus on plastic pollution''
       ''nature, water, policy'' 0.7 \<and>
   (\<exists>outline.
      fst (generate_article_outline svc title notes tags 0.7 sent) = Returns outline \<and>
      snd (call_openai_api svc title tags notes sent) =
        sent @ [outline_request title notes tags 0.7,
                \<lparr>engine = ''text-davinci-003'',
                 prompt = ''Write a detailed article based on the following outline:''
                   @ ''\<newline>'' @ outline @ ''\<newline>'',
                 max_tokens = 800, temperature = 0.7\<rparr>])"
proof -
  have tags: "tag_string ''nature, water, policy'' = ''nature, water, policy''"
    by (simp add: tag_string_def str_strip_def isspace_def str_split_Cons_case
        del: str_split.simps(2))
  have example: "prompt (outline_request ''Ocean Conservation'' ''focus on plastic pollution''
       ''nature, water, policy'' t) =
     ''Title: Ocean Conservation\<newline>'' @ ''Tags: nature, water, policy''
       @ ''\<newline>Notes: focus on plastic pollution\<newline>\<newline>Create a detailed outline for an article based on the above information:''"
    by (simp add: outline_request_def outline_prompt_def tags)
  have first: "hd (snd (call_openai_api svc ''Ocean Conservation'' ''nature, water, policy''
              ''focus on plastic pollution'' [])) =
     outline_request ''Ocean Conservation'' ''focus on plastic pollution''
       ''nature, water, policy'' 0.7"
    by (simp add: worker_run Let_def)
  have fed: "\<exists>outline.
      fst (generate_article_outline svc title notes tags 0.7 sent) = Returns outline \<and>
      snd (call_openai_api svc title tags notes sent) =
        sent @ [outline_request title notes tags 0.7,
                \<lparr>engine = ''text-davinci-003'',
                 prompt = ''Write a detailed article based on the following outline:''
                   @ ''\<newline>'' @ outline @ ''\<newline>'',
                 max_tokens = 800, temperature = 0.7\<rparr>]"
    by (simp add: worker_run outline_run Let_def article_request_def article_prompt_def)
  from example first fed show ?thesis by blast
qed

text \<open>
  Claim C5. When the service raises on the outline request, \<open>generate_article_outline\<close>
  returns the string form of the exception, and the worker goes on: it sends the article
  request, whose prompt holds that string where the outline belongs, and emits whatever
  the article call returns.
\<close>

theorem outline_failure_cascades:
  assumes "svc sent (outline_request title notes tags 0.7) = Raises e"
  shows "fst (generate_article_outline svc title notes tags 0.7 sent) = Returns (str e) \<and>
         snd (call_openai_api svc title tags notes sent) =
           sent @ [outline_request title notes tags 0.7, article_request (str e) 0.7] \<and>
         prompt (article_request (str e) 0.7) =
           ''Write a detailed article based on the following outline:\<newline>'' @ str e
             @ ''\<newline>'' \<and>
         max_tokens (article_request (str e) 0.7) = 800 \<and>
         (\<exists>article.
            fst (generate_full_article_from_outline svc (str e) 0.7
                   (sent @ [outline_request title notes tags 0.7])) = Returns article \<and>
            fst (call_openai_api svc title tags notes sent) = Some article)"
  using assms
  by (simp add: worker_run outline_run article_run Let_def first_choice_text_def
      article_request_def article_prompt_def)

theorem outline_failure_cascades_witness:
  "failing_service [] (outline_request ''Ocean'' ''plastic'' ''a,b'' 0.7)
     = Raises (Exception ''Incorrect API key provided'') \<and>
   snd (call_openai_api failing_service ''Ocean'' ''a,b'' ''plastic'' []) =
     [outline_request ''Ocean'' ''plastic'' ''a,b'' 0.7,
      article_request ''Incorrect API key provided'' 0.7] \<and>
   prompt (article_request ''Incorrect API key provided'' 0.7) =
     ''Write a detailed article based on the following outline:\<newline>Incorrect API key provided\<newline>'' \<and>
   fst (call_openai_api failing_service ''Ocean'' ''a,b'' ''plastic'' []) = Some ''An article.''"
proof -
  have h: "failing_service [] (outline_request ''Ocean'' ''plastic'' ''a,b'' 0.7)
     = Raises (Exception ''Incorrect API key provided'')"
    by (simp add: failing_service_def outline_request_def)
  have a: "fst (generate_full_article_from_outline failing_service
                  ''Incorrect API key provided'' 0.7
                  [outline_request ''Ocean'' ''plastic'' ''a,b'' 0.7]) = Returns ''An article.''"
    by (simp add: generate_full_article_from_outline_def article_try_def
        Completion_create_def failing_service_def article_request_def first_choice_text_def
        str_strip_def isspace_def)
  show ?thesis
    using h a outline_failure_cascades [of failing_service "[]" "''Ocean''" "''plastic''" "''a,b''"
        "Exception ''Incorrect API key provided''"]
    by simp
qed

text \<open>
  Claim C10. Empty inputs go through unchecked: the empty tags string splits into one
  empty tag, which trims to the empty string, so the tag segment is empty; the outline
  request is sent all the same, with the template's fixed text only; and a click on
  the button with empty fields starts the loading timer and a worker.
\<close>

theorem empty_inputs_accepted:
  "str_split (CHR '','') '''' = [''''] \<and>
   map str_strip [''''] = [''''] \<and>
   tag_string '''' = '''' \<and>
   outline_prompt title notes '''' =
     ''Title: '' @ title @ ''\<newline>Tags: \<newline>Notes: '' @ notes
       @ ''\<newline>\<newline>Create a detailed outline for an article based on the above information:'' \<and>
   snd (generate_article_outline svc '''' '''' '''' t sent) =
     sent @ [\<lparr>engine = ''text-davinci-003'',
              prompt = ''Title: \<newline>Tags: \<newline>Notes: \<newline>\<newline>Create a detailed outline for an article based on the above information:'',
              max_tokens = 200, temperature = t\<rparr>] \<and>
   fst (generate_article_outline svc '''' '''' '''' t sent) =
     Returns (case first_choice_text (svc sent (outline_request '''' '''' '''' t)) of
                Returns text \<Rightarrow> text | Raised e \<Rightarrow> str e) \<and>
   threads (generate_article (s\<lparr>title_entry := '''', tags_entry := '''', notes_entry := ''''\<rparr>))
     = threads s @ [('''', '''', '''')] \<and>
   fire Click ArticleGenerator =
     Returns (ArticleGenerator\<lparr>ellipsis_timer := \<lparr>active = True, interval = 500\<rparr>,
                threads := [('''', '''', '''')]\<rparr>)"
  by (simp add: outline_run outline_request_def outline_prompt_def tag_string_def
      str_strip_def generate_article_def ArticleGenerator_def start_def Let_def)

section \<open>Facts about the typing timer\<close>

lemma type_next_character_step:
  assumes "full_generated_text s = Some text" "current_typing_position s = Some p"
    "0 \<le> p" "p < int (length text)"
  shows "type_next_character s =
     Returns (s\<lparr>generated_text_area := insertPlainText [text ! nat p] (generated_text_area s),
                current_typing_position := Some (p + 1)\<rparr>)"
  using assms by (simp add: type_next_character_def getitem_def Let_def)

lemma type_next_character_stop:
  assumes "full_generated_text s = Some text" "current_typing_position s = Some p"
    "\<not> p < int (length text)"
  shows "type_next_character s = Returns (s\<lparr>typing_timer := stop (typing_timer s)\<rparr>)"
  using assms by (simp add: type_next_character_def)

lemma type_ticks_inactive: "\<not> active (typing_timer s) \<Longrightarrow> type_ticks n s = Returns s"
  by (induction n) auto

lemma insert_at_end:
  "cursor a = length (content a) \<Longrightarrow>
     insertPlainText txt a = \<lparr>content = content a @ txt, cursor = length (content a) + length txt\<rparr>"
  by (simp add: insertPlainText_def)

lemma type_ticks_run:
  assumes "active (typing_timer s)" "full_generated_text s = Some text"
    "current_typing_position s = Some (int k)" "k \<le> length text"
    "cursor (generated_text_area s) = length (content (generated_text_area s))"
  shows "\<exists>s'. type_ticks n s = Returns s' \<and>
     content (generated_text_area s') = content (generated_text_area s) @ take n (drop k text) \<and>
     cursor (generated_text_area s') = length (content (generated_text_area s')) \<and>
     full_generated_text s' = Some text \<and>
     current_typing_position s' = Some (int (min (k + n) (length text))) \<and>
     active (typing_timer s') = (k + n \<le> length text)"
  using assms
proof (induction n arbitrary: s k)
  case 0
  then show ?case by simp
next
  case (Suc n)
  show ?case
  proof (cases "k < length text")
    case True
    let ?s1 = "s\<lparr>generated_text_area := insertPlainText [text ! k] (generated_text_area s),
                 current_typing_position := Some (int k + 1)\<rparr>"
    have step: "type_next_character s = Returns ?s1"
      using type_next_character_step [OF Suc.prems(2) Suc.prems(3)] True by simp
    have area: "generated_text_area ?s1 =
        \<lparr>content = content (generated_text_area s) @ [text ! k],
         cursor = length (content (generated_text_area s)) + 1\<rparr>"
      using insert_at_end [OF Suc.prems(5), of "[text ! k]"] by simp
    have "\<exists>s'. type_ticks n ?s1 = Returns s' \<and>
       content (generated_text_area s') =
         content (generated_text_area ?s1) @ take n (drop (Suc k) text) \<and>
       cursor (generated_text_area s') = length (content (generated_text_area s')) \<and>
       full_generated_text s' = Some text \<and>
       current_typing_position s' = Some (int (min (Suc k + n) (length text))) \<and>
       active (typing_timer s') = (Suc k + n \<le> length text)"
    proof (rule Suc.IH)
      show "active (typing_timer ?s1)" using Suc.prems(1) by simp
      show "full_generated_text ?s1 = Some text" using Suc.prems(2) by simp
      show "current_typing_position ?s1 = Some (int (Suc k))" by simp
      show "Suc k \<le> length text" using True by simp
      show "cursor (generated_text_area ?s1) = length (content (generated_text_area ?s1))"
        by (simp add: area)
    qed
    then obtain s' where s': "type_ticks n ?s1 = Returns s'"
      "content (generated_text_area s') =
         content (generated_text_area ?s1) @ take n (drop (Suc k) text)"
      "cursor (generated_text_area s') = length (content (generated_text_area s'))"
      "full_generated_text s' = Some text"
      "current_typing_position s' = Some (int (min (Suc k + n) (length text)))"
      "active (typing_timer s') = (Suc k + n \<le> length text)"
      by blast
    have run: "type_ticks (Suc n) s = Returns s'"
      using Suc.prems(1) step s'(1) by simp
    have "take (Suc n) (drop k text) = text ! k # take n (drop (Suc k) text)"
      using True by (simp add: Cons_nth_drop_Suc [symmetric])
    then have "content (generated_text_area s') =
        content (generated_text_area s) @ take (Suc n) (drop k text)"
      using s'(2) area by simp
    with run s'(3,4,5,6) show ?thesis by simp
  next
    case False
    with Suc.prems(4) have k: "k = length text" by simp
    let ?s1 = "s\<lparr>typing_timer := stop (typing_timer s)\<rparr>"
    have step: "type_next_character s = Returns ?s1"
      using type_next_character_stop [OF Suc.prems(2) Suc.prems(3)] k by simp
    have "type_ticks n ?s1 = Returns ?s1"
      by (rule type_ticks_inactive) (simp add: stop_def)
    then have "type_ticks (Suc n) s = Returns ?s1"
      using Suc.prems(1) step by simp
    then show ?thesis
      using Suc.prems k by (simp add: stop_def)
  qed
qed

section \<open>The window\<close>

text \<open>
  Claim C8. Every timeout of the loading timer runs \<open>update_ellipsis\<close>, which sets
  the dot count to \<open>(dot count + 1) mod 4\<close> and renders \<open>Generating article\<close> followed by
  that many periods. So the count stays within 0..3, after \<open>n\<close> timeouts of a fresh
  window it is \<open>n mod 4\<close> (0, 1, 2, 3, 0, 1, ...), and two consecutive renders differ.
\<close>

theorem ellipsis_cycle:
  "ellipsis_count (update_ellipsis s) = (ellipsis_count s + 1) mod 4 \<and>
   ellipsis_count (update_ellipsis s) \<in> {0, 1, 2, 3} \<and>
   content (generated_text_area (update_ellipsis s)) =
     ''Generating article'' @ replicate (nat (ellipsis_count (update_ellipsis s))) (CHR ''.'') \<and>
   content (generated_text_area (update_ellipsis (update_ellipsis s))) \<noteq>
     content (generated_text_area (update_ellipsis s)) \<and>
   fire EllipsisTimeout s = Returns (update_ellipsis s) \<and>
   ellipsis_count ((update_ellipsis ^^ Suc n) s) = (ellipsis_count s + int (Suc n)) mod 4 \<and>
   ellipsis_count ((update_ellipsis ^^ n) ArticleGenerator) = int n mod 4 \<and>
   map (\<lambda>k. ellipsis_count ((update_ellipsis ^^ k) ArticleGenerator)) [0, 1, 2, 3, 4, 5] =
     [0, 1, 2, 3, 0, 1]"
proof -
  have count: "ellipsis_count (update_ellipsis s) = (ellipsis_count s + 1) mod 4" for s
    by (simp add: update_ellipsis_def Let_def)
  have range: "ellipsis_count (update_ellipsis s) \<in> {0, 1, 2, 3}"
  proof -
    have "0 \<le> (ellipsis_count s + 1) mod 4" "(ellipsis_count s + 1) mod 4 < 4" by simp_all
    then show ?thesis unfolding count by auto
  qed
  have render: "content (generated_text_area (update_ellipsis s)) =
     ''Generating article'' @ replicate (nat (ellipsis_count (update_ellipsis s))) (CHR ''.'')" for s
    by (simp add: update_ellipsis_def Let_def setText_def)
  have differ: "content (generated_text_area (update_ellipsis (update_ellipsis s))) \<noteq>
     content (generated_text_area (update_ellipsis s))"
  proof -
    let ?c = "ellipsis_count (update_ellipsis s)"
    have "0 \<le> ?c" "?c < 4" unfolding count by simp_all
    then have "(?c + 1) mod 4 \<noteq> ?c" by presburger
    moreover have "0 \<le> (?c + 1) mod 4" by simp
    ultimately have "nat ((?c + 1) mod 4) \<noteq> nat ?c"
      using \<open>0 \<le> ?c\<close> by (simp add: eq_nat_nat_iff)
    then have "length (replicate (nat ((?c + 1) mod 4)) (CHR ''.'')) \<noteq>
        length (replicate (nat ?c) (CHR ''.''))" by simp
    then have "replicate (nat ((?c + 1) mod 4)) (CHR ''.'') \<noteq> replicate (nat ?c) (CHR ''.'')"
      by metis
    then show ?thesis unfolding render count [of "update_ellipsis s"] by simp
  qed
  have iter: "ellipsis_count ((update_ellipsis ^^ Suc n) s) = (ellipsis_count s + int (Suc n)) mod 4"
    for n s
  proof (induction n)
    case 0
    show ?case by (simp add: count)
  next
    case (Suc n)
    have "ellipsis_count ((update_ellipsis ^^ Suc (Suc n)) s) =
        (ellipsis_count ((update_ellipsis ^^ Suc n) s) + 1) mod 4"
      by (simp add: count)
    also have "\<dots> = ((ellipsis_count s + int (Suc n)) mod 4 + 1) mod 4"
      unfolding Suc.IH ..
    also have "\<dots> = (ellipsis_count s + int (Suc (Suc n))) mod 4"
      by (simp add: mod_simps algebra_simps)
    finally show ?case .
  qed
  have init: "ellipsis_count ((update_ellipsis ^^ n) ArticleGenerator) = int n mod 4" for n
  proof (cases n)
    case 0
    then show ?thesis by (simp add: ArticleGenerator_def)
  next
    case (Suc m)
    then show ?thesis using iter [of m ArticleGenerator] by (simp add: ArticleGenerator_def)
  qed
  have first6: "map (\<lambda>k. ellipsis_count ((update_ellipsis ^^ k) ArticleGenerator)) [0, 1, 2, 3, 4, 5] =
     [0, 1, 2, 3, 0, 1]"
    unfolding init by simp
  show ?thesis using count range render differ iter init first6 by simp
qed

end
